theory Spec2Isabelle
  imports Main "HOL-Library.Word"
begin

section \<open>JavaScript strings\<close>

text \<open>
  A JavaScript string is a sequence of UTF-16 code units. A string literal of the source
  that is plain ASCII is written \<open>ascii ''...''\<close>.
\<close>

type_synonym jsstring = "16 word list"

definition ascii :: "string \<Rightarrow> jsstring" where
  "ascii cs = map of_char cs"

text \<open>
  \<open>String.prototype.trim\<close> removes, from both ends, the code units that ECMA-262 calls
  WhiteSpace (TAB, VT, FF, SP, NBSP, ZWNBSP and the Unicode category Zs) or
  LineTerminator (LF, CR, LS, PS). All of them lie in the Basic Multilingual Plane, so
  the test is one on single code units.
\<close>

definition isWhiteSpace :: "16 word \<Rightarrow> bool" where
  "isWhiteSpace c =
     (c = 0x0009 \<or> c = 0x000B \<or> c = 0x000C \<or> c = 0x0020 \<or> c = 0x00A0 \<or> c = 0xFEFF \<or>
      c = 0x1680 \<or> (0x2000 \<le> c \<and> c \<le> 0x200A) \<or> c = 0x202F \<or> c = 0x205F \<or> c = 0x3000)"

definition isLineTerminator :: "16 word \<Rightarrow> bool" where
  "isLineTerminator c = (c = 0x000A \<or> c = 0x000D \<or> c = 0x2028 \<or> c = 0x2029)"

definition isTrimmed :: "16 word \<Rightarrow> bool" where
  "isTrimmed c = (isWhiteSpace c \<or> isLineTerminator c)"

definition trim :: "jsstring \<Rightarrow> jsstring" where
  "trim s = rev (dropWhile isTrimmed (rev (dropWhile isTrimmed s)))"

text \<open>
  The values read from \<open>import.meta.env\<close> and the \<open>message\<close> property of a caught
  value are a string or \<open>undefined\<close> (\<open>None\<close>). Both \<open>undefined\<close> and the empty
  string are falsy; \<open>a || b\<close> is \<open>a\<close> when \<open>a\<close> is truthy and \<open>b\<close> otherwise.
\<close>

definition falsy :: "jsstring option \<Rightarrow> bool" where
  "falsy v = (case v of None \<Rightarrow> True | Some s \<Rightarrow> s = [])"

definition logical_or :: "jsstring option \<Rightarrow> jsstring \<Rightarrow> jsstring" where
  "logical_or v d = (case v of None \<Rightarrow> d | Some s \<Rightarrow> if s = [] then d else s)"

section \<open>The data of \<open>App.jsx\<close>\<close>

datatype status_type = success | error

record StatusMessage =
  type :: status_type
  "text" :: jsstring

text \<open>The six \<open>useState\<close> cells of the component \<open>App\<close>.\<close>

record ContactFormState =
  name :: jsstring
  email :: jsstring
  message :: jsstring
  isPolishing :: bool
  isSubmitting :: bool
  status :: "StatusMessage option"

text \<open>The initial values given to \<open>useState\<close>.\<close>

definition initial_state :: ContactFormState where
  "initial_state =
     \<lparr>name = [], email = [], message = [], isPolishing = False, isSubmitting = False,
      status = None\<rparr>"

text \<open>
  The object literal passed to \<open>addDoc\<close> and the one passed to \<open>emailjs.send\<close>.
  Their keys \<open>name\<close>, \<open>email\<close> and \<open>message\<close> are the fields of the form state
  already, so the document's are written \<open>doc_name\<close>, \<open>doc_email\<close> and
  \<open>doc_message\<close>, and the key \<open>message\<close> of the email parameters is
  \<open>param_message\<close>.
\<close>

record OutboundMessageRecord =
  doc_name :: jsstring
  doc_email :: jsstring
  doc_message :: jsstring
  createdAt :: jsstring

record EmailParams =
  from_name :: jsstring
  from_email :: jsstring
  param_message :: jsstring

text \<open>The variables of \<open>import.meta.env\<close> that the two handlers read.\<close>

record env =
  VITE_GOOGLE_GENERATIVE_AI_API_KEY :: "jsstring option"
  VITE_EMAILJS_SERVICE_ID :: "jsstring option"
  VITE_EMAILJS_TEMPLATE_ID :: "jsstring option"
  VITE_EMAILJS_PUBLIC_KEY :: "jsstring option"

text \<open>
  A promise can be rejected with any value, and \<open>catch (err)\<close> catches whatever was
  thrown. The handlers only read \<open>err.message\<close>. On \<open>undefined\<close> and on \<open>null\<close>
  (\<open>Nullish\<close>) that read itself throws a \<open>TypeError\<close>; on every other value
  (\<open>Thrown\<close>) it gives the value's \<open>message\<close>, a string as that of every \<open>Error\<close>
  is, or \<open>undefined\<close> when the value has none.
\<close>

datatype thrown = Nullish | Thrown "jsstring option"

text \<open>
  A promise returned by a library call is fulfilled with a value, rejected with a thrown
  value, or never settles. The generative-text response has a method \<open>text()\<close>, which
  returns a string or throws.
\<close>

datatype 'a outcome = Fulfilled 'a | Rejected thrown | Pending

datatype response = Response (response_text: "thrown + jsstring")

type_synonym timevalue = int

text \<open>
  The libraries and the clock are not part of the repository; they are parameters of the
  model. Each library call is a function from its arguments to the outcome of the
  promise it returns; \<open>now\<close> is the time value of \<open>new Date()\<close> and \<open>toISOString\<close> is
  \<open>Date.prototype.toISOString\<close>; \<open>typeErrorMessage\<close> is the text that the engine gives
  to the \<open>TypeError\<close> of a property read on \<open>undefined\<close> or \<open>null\<close>.
\<close>

record platform =
  generateContent :: "jsstring \<Rightarrow> jsstring \<Rightarrow> jsstring \<Rightarrow> response outcome"
  addDoc :: "jsstring \<Rightarrow> OutboundMessageRecord \<Rightarrow> unit outcome"
  send :: "jsstring option \<Rightarrow> jsstring option \<Rightarrow> EmailParams \<Rightarrow> jsstring option \<Rightarrow> unit outcome"
  now :: timevalue
  toISOString :: "timevalue \<Rightarrow> jsstring"
  typeErrorMessage :: jsstring

text \<open>The expression \<open>err.message\<close>: the property, or the \<open>TypeError\<close> it throws.\<close>

definition read_message :: "platform \<Rightarrow> thrown \<Rightarrow> thrown + jsstring option" where
  "read_message p err =
     (case err of
        Nullish \<Rightarrow> Inl (Thrown (Some (typeErrorMessage p)))
      | Thrown m \<Rightarrow> Inr m)"

section \<open>Effects and control flow\<close>

text \<open>
  What a handler does, in the order in which it does it: calls of the state setters, the
  call of \<open>e.preventDefault()\<close>, and the three outbound calls with their arguments
  (\<open>GenerateContent\<close>: API key, model name, prompt; \<open>AddDoc\<close>: collection name,
  document; \<open>EmailSend\<close>: service id, template id, template parameters, public key).
\<close>

datatype effect =
    PreventDefault
  | SetName jsstring
  | SetEmail jsstring
  | SetMessage jsstring
  | SetIsPolishing bool
  | SetIsSubmitting bool
  | SetStatus "StatusMessage option"
  | GenerateContent jsstring jsstring jsstring
  | AddDoc jsstring OutboundMessageRecord
  | EmailSend "jsstring option" "jsstring option" EmailParams "jsstring option"

text \<open>
  A piece of code completes normally, throws, or stays suspended at an \<open>await\<close> whose
  promise never settles. Its meaning is the list of its effects and how it completes.
\<close>

datatype completion = Normal | Throw thrown | Awaiting

type_synonym block = "effect list \<times> completion"

definition emit :: "effect \<Rightarrow> block" where
  "emit e = ([e], Normal)"

text \<open>Statements in sequence: the second runs only if the first completes normally.\<close>

fun seq :: "block \<Rightarrow> block \<Rightarrow> block" where
  "seq (es, Normal) (es', c) = (es @ es', c)"
| "seq (es, Throw err) b = (es, Throw err)"
| "seq (es, Awaiting) b = (es, Awaiting)"

text \<open>\<open>const v = await call; rest v\<close>: the call is made, then the promise is awaited.\<close>

definition await :: "effect \<Rightarrow> 'a outcome \<Rightarrow> ('a \<Rightarrow> block) \<Rightarrow> block" where
  "await call promise rest =
     (case promise of
        Fulfilled v \<Rightarrow> seq (emit call) (rest v)
      | Rejected err \<Rightarrow> ([call], Throw err)
      | Pending \<Rightarrow> ([call], Awaiting))"

text \<open>
  \<open>try { body } catch (err) { handler }\<close> runs the handler when the body throws.
  \<open>try { body } finally { cleanup }\<close> runs the cleanup when the body completes normally
  or throws; what the body threw is thrown again after a cleanup that completes normally.
\<close>

fun try_catch :: "block \<Rightarrow> (thrown \<Rightarrow> block) \<Rightarrow> block" where
  "try_catch (es, Normal) handler = (es, Normal)"
| "try_catch (es, Throw err) handler = seq (es, Normal) (handler err)"
| "try_catch (es, Awaiting) handler = (es, Awaiting)"

fun try_finally :: "block \<Rightarrow> block \<Rightarrow> block" where
  "try_finally (es, Normal) cleanup = seq (es, Normal) cleanup"
| "try_finally (es, Throw err) (es', Normal) = (es @ es', Throw err)"
| "try_finally (es, Throw err) (es', Throw err') = (es @ es', Throw err')"
| "try_finally (es, Throw err) (es', Awaiting) = (es @ es', Awaiting)"
| "try_finally (es, Awaiting) cleanup = (es, Awaiting)"

definition try_catch_finally :: "block \<Rightarrow> (thrown \<Rightarrow> block) \<Rightarrow> block \<Rightarrow> block" where
  "try_catch_finally body handler cleanup = try_finally (try_catch body handler) cleanup"

section \<open>The two handlers\<close>

text \<open>
  Inside a handler, \<open>name\<close>, \<open>email\<close> and \<open>message\<close> are the values of the render in
  which the handler was created: the state \<open>s\<close>. A setter does not change them.
  In \<open>handleAiPolish\<close>, \<open>the apiKey\<close> stands only behind the test that \<open>apiKey\<close>
  is truthy, where it is the string read from the environment.
\<close>

definition handleAiPolish :: "env \<Rightarrow> platform \<Rightarrow> ContactFormState \<Rightarrow> block" where
  "handleAiPolish e p s =
     (if trim (message s) = [] then ([], Normal)
      else
        let apiKey = VITE_GOOGLE_GENERATIVE_AI_API_KEY e in
        if falsy apiKey then
          emit (SetStatus (Some \<lparr>type = error, text = ascii ''AI API key not configured.''\<rparr>))
        else
          seq (emit (SetIsPolishing True))
         (seq (emit (SetStatus None))
         (try_catch_finally
            (let model = ascii ''gemini-pro'';
                 prompt = ascii ''Rewrite the following text to be professional, polite, and concise: ''
                            @ message s
             in await (GenerateContent (the apiKey) model prompt)
                  (generateContent p (the apiKey) model prompt)
                  (\<lambda>result.
                     case response_text result of
                       Inl err \<Rightarrow> ([], Throw err)
                     | Inr polishedText \<Rightarrow>
                         if polishedText = [] then ([], Normal)
                         else seq (emit (SetMessage (trim polishedText)))
                                  (emit (SetStatus (Some \<lparr>type = success,
                                                           text = ascii ''Message polished!''\<rparr>)))))
            (\<lambda>err.
               case read_message p err of
                 Inl typeError \<Rightarrow> ([], Throw typeError)
               | Inr m \<Rightarrow>
                   emit (SetStatus (Some \<lparr>type = error,
                                           text = logical_or m (ascii ''AI polish failed.'')\<rparr>)))
            (emit (SetIsPolishing False)))))"

definition handleSubmit :: "env \<Rightarrow> platform \<Rightarrow> ContactFormState \<Rightarrow> block" where
  "handleSubmit e p s =
     seq (emit PreventDefault)
       (if trim (name s) = [] \<or> trim (email s) = [] \<or> trim (message s) = [] then
          emit (SetStatus (Some \<lparr>type = error, text = ascii ''Please fill in all fields.''\<rparr>))
        else
          seq (emit (SetIsSubmitting True))
         (seq (emit (SetStatus None))
         (try_catch_finally
            (let doc = \<lparr>doc_name = trim (name s), doc_email = trim (email s),
                        doc_message = trim (message s),
                        createdAt = toISOString p (now p)\<rparr>
             in await (AddDoc (ascii ''messages'') doc) (addDoc p (ascii ''messages'') doc)
                  (\<lambda>_.
                     let params = \<lparr>from_name = trim (name s), from_email = trim (email s),
                                   param_message = trim (message s)\<rparr>
                     in await (EmailSend (VITE_EMAILJS_SERVICE_ID e) (VITE_EMAILJS_TEMPLATE_ID e)
                                 params (VITE_EMAILJS_PUBLIC_KEY e))
                          (send p (VITE_EMAILJS_SERVICE_ID e) (VITE_EMAILJS_TEMPLATE_ID e)
                             params (VITE_EMAILJS_PUBLIC_KEY e))
                          (\<lambda>_.
                             seq (emit (SetStatus (Some \<lparr>type = success,
                                          text = ascii ''Message sent successfully!''\<rparr>)))
                            (seq (emit (SetName []))
                            (seq (emit (SetEmail []))
                                 (emit (SetMessage [])))))))
            (\<lambda>err.
               case read_message p err of
                 Inl typeError \<Rightarrow> ([], Throw typeError)
               | Inr m \<Rightarrow>
                   emit (SetStatus (Some \<lparr>type = error,
                                           text = logical_or m
                                                    (ascii ''Failed to send message.'')\<rparr>)))
            (emit (SetIsSubmitting False)))))"

section \<open>The form state after an invocation\<close>

text \<open>
  Each setter call stores its argument in its \<open>useState\<close> cell; the other effects
  leave the form state alone. \<open>state_after s b\<close> is the form state once the effects of
  \<open>b\<close> have been applied to \<open>s\<close>, the state in which the handler was invoked (no
  other event in between). The handler's promise has settled when the handler is not
  suspended at an \<open>await\<close>; the invocation is completed when the handler has run to its
  end without throwing.
\<close>

fun apply_effect :: "ContactFormState \<Rightarrow> effect \<Rightarrow> ContactFormState" where
  "apply_effect s (SetName v) = s\<lparr>name := v\<rparr>"
| "apply_effect s (SetEmail v) = s\<lparr>email := v\<rparr>"
| "apply_effect s (SetMessage v) = s\<lparr>message := v\<rparr>"
| "apply_effect s (SetIsPolishing b) = s\<lparr>isPolishing := b\<rparr>"
| "apply_effect s (SetIsSubmitting b) = s\<lparr>isSubmitting := b\<rparr>"
| "apply_effect s (SetStatus v) = s\<lparr>status := v\<rparr>"
| "apply_effect s PreventDefault = s"
| "apply_effect s (GenerateContent k m q) = s"
| "apply_effect s (AddDoc c d) = s"
| "apply_effect s (EmailSend a b c d) = s"

definition state_after :: "ContactFormState \<Rightarrow> block \<Rightarrow> ContactFormState" where
  "state_after s b = foldl apply_effect s (fst b)"

definition completed :: "block \<Rightarrow> bool" where
  "completed b = (snd b = Normal)"

definition settled :: "block \<Rightarrow> bool" where
  "settled b = (snd b \<noteq> Awaiting)"

fun is_store_write :: "effect \<Rightarrow> bool" where
  "is_store_write (AddDoc c d) = True"
| "is_store_write _ = False"

fun is_email_send :: "effect \<Rightarrow> bool" where
  "is_email_send (EmailSend a b c d) = True"
| "is_email_send _ = False"

fun is_generate :: "effect \<Rightarrow> bool" where
  "is_generate (GenerateContent k m q) = True"
| "is_generate _ = False"

definition is_outbound :: "effect \<Rightarrow> bool" where
  "is_outbound x = (is_generate x \<or> is_store_write x \<or> is_email_send x)"

section \<open>The buttons\<close>

text \<open>
  The component invokes \<open>handleAiPolish\<close> from the click of the polish button and
  \<open>handleSubmit\<close> from the submission of the form, whose only submit button is the
  send button. These are the \<open>disabled\<close> attributes of the two buttons in the render
  of the state \<open>s\<close>.
\<close>

definition polish_button_disabled :: "ContactFormState \<Rightarrow> bool" where
  "polish_button_disabled s = (isPolishing s \<or> trim (message s) = [])"

definition send_button_disabled :: "ContactFormState \<Rightarrow> bool" where
  "send_button_disabled s = isSubmitting s"

section \<open>Concrete inputs\<close>

text \<open>
  An environment with every variable set and one without the API key; platforms on which
  every call succeeds, the store write is rejected, the email send is rejected with an
  object that has no \<open>message\<close>, the generative-text call is rejected likewise, the
  email send and the generative-text call are rejected with \<open>undefined\<close>, and the
  generative-text call returns the empty string; a filled form, and a form with a
  whitespace-only message on which both in-flight flags are set.
\<close>

definition example_env :: env where
  "example_env =
     \<lparr>VITE_GOOGLE_GENERATIVE_AI_API_KEY = Some (ascii ''key''),
      VITE_EMAILJS_SERVICE_ID = Some (ascii ''svc''),
      VITE_EMAILJS_TEMPLATE_ID = Some (ascii ''tpl''),
      VITE_EMAILJS_PUBLIC_KEY = Some (ascii ''pub'')\<rparr>"

definition env_without_key :: env where
  "env_without_key = example_env\<lparr>VITE_GOOGLE_GENERATIVE_AI_API_KEY := None\<rparr>"

definition platform_ok :: platform where
  "platform_ok =
     \<lparr>generateContent = (\<lambda>k m q. Fulfilled (Response (Inr (ascii '' Dear all. '')))),
      addDoc = (\<lambda>c d. Fulfilled ()),
      send = (\<lambda>a b c d. Fulfilled ()),
      now = 0,
      toISOString = (\<lambda>t. ascii ''1970-01-01T00:00:00.000Z''),
      typeErrorMessage = ascii ''err is undefined''\<rparr>"

definition platform_store_down :: platform where
  "platform_store_down =
     platform_ok\<lparr>addDoc := (\<lambda>c d. Rejected (Thrown (Some (ascii ''permission-denied''))))\<rparr>"

definition platform_mail_down :: platform where
  "platform_mail_down = platform_ok\<lparr>send := (\<lambda>a b c d. Rejected (Thrown None))\<rparr>"

definition platform_ai_down :: platform where
  "platform_ai_down = platform_ok\<lparr>generateContent := (\<lambda>k m q. Rejected (Thrown None))\<rparr>"

definition platform_mail_undefined :: platform where
  "platform_mail_undefined = platform_ok\<lparr>send := (\<lambda>a b c d. Rejected Nullish)\<rparr>"

definition platform_ai_undefined :: platform where
  "platform_ai_undefined = platform_ok\<lparr>generateContent := (\<lambda>k m q. Rejected Nullish)\<rparr>"

definition platform_ai_empty :: platform where
  "platform_ai_empty =
     platform_ok\<lparr>generateContent := (\<lambda>k m q. Fulfilled (Response (Inr [])))\<rparr>"

definition filled_form :: ContactFormState where
  "filled_form =
     \<lparr>name = ascii '' Ann '', email = ascii ''a@b.c'', message = ascii ''hi there '',
      isPolishing = False, isSubmitting = False, status = None\<rparr>"

definition busy_blank_form :: ContactFormState where
  "busy_blank_form =
     initial_state\<lparr>message := ascii ''  '', isPolishing := True, isSubmitting := True\<rparr>"

section \<open>Unfolding\<close>

lemmas control_defs = emit_def await_def try_catch_finally_def read_message_def

lemmas string_defs = trim_def ascii_def isTrimmed_def isWhiteSpace_def isLineTerminator_def

lemmas fixture_defs =
  example_env_def env_without_key_def platform_ok_def platform_store_down_def
  platform_mail_down_def platform_ai_down_def platform_mail_undefined_def
  platform_ai_undefined_def platform_ai_empty_def filled_form_def
  busy_blank_form_def initial_state_def

section \<open>Blank strings\<close>

text \<open>
  A string is empty after trimming exactly when it is empty or consists of white space
  and line terminators only.
\<close>

lemma dropWhile_all_iff: "(\<forall>x \<in> set (dropWhile P xs). P x) \<longleftrightarrow> (\<forall>x \<in> set xs. P x)"
proof
  assume rest: "\<forall>x \<in> set (dropWhile P xs). P x"
  have "dropWhile P xs = []"
  proof (rule ccontr)
    assume ne: "dropWhile P xs \<noteq> []"
    then have "\<not> P (hd (dropWhile P xs))" by (rule hd_dropWhile)
    moreover from ne have "hd (dropWhile P xs) \<in> set (dropWhile P xs)" by simp
    ultimately show False using rest by blast
  qed
  then show "\<forall>x \<in> set xs. P x" by (simp add: dropWhile_eq_Nil_conv)
next
  assume "\<forall>x \<in> set xs. P x"
  then show "\<forall>x \<in> set (dropWhile P xs). P x" by (blast dest: set_dropWhileD)
qed

lemma trim_empty_iff: "trim s = [] \<longleftrightarrow> list_all isTrimmed s"
  by (simp add: trim_def dropWhile_eq_Nil_conv dropWhile_all_iff list_all_iff)

section \<open>Errors and calls that never settle\<close>

text \<open>
  A handler throws only when the value it caught was \<open>undefined\<close> or \<open>null\<close>: then
  the read of \<open>err.message\<close> in the catch block throws a \<open>TypeError\<close>, no error
  status is set, the \<open>finally\<close> block still clears the in-flight flag, and the
  handler's promise is rejected with that \<open>TypeError\<close>. While an awaited call has not
  settled, the invocation is not completed and the in-flight flag is set.
\<close>

lemma handleAiPolish_throws: "snd (handleAiPolish e p s) = Throw x \<Longrightarrow> x = Thrown (Some (typeErrorMessage p))"
  by (simp add: handleAiPolish_def control_defs Let_def
        split: if_split_asm outcome.split_asm sum.split_asm thrown.split_asm)

lemma handleSubmit_throws: "snd (handleSubmit e p s) = Throw x \<Longrightarrow> x = Thrown (Some (typeErrorMessage p))"
  by (simp add: handleSubmit_def control_defs Let_def
        split: if_split_asm outcome.split_asm thrown.split_asm)

lemma handleAiPolish_rejected_nullish:
  assumes "trim (message s) \<noteq> []"
    and "VITE_GOOGLE_GENERATIVE_AI_API_KEY e = Some key" and "key \<noteq> []"
    and "generateContent p key (ascii ''gemini-pro'')
           (ascii ''Rewrite the following text to be professional, polite, and concise: ''
              @ message s) = Rejected Nullish
         \<or> generateContent p key (ascii ''gemini-pro'')
           (ascii ''Rewrite the following text to be professional, polite, and concise: ''
              @ message s) = Fulfilled (Response (Inl Nullish))"
  shows "snd (handleAiPolish e p s) = Throw (Thrown (Some (typeErrorMessage p)))"
    and "state_after s (handleAiPolish e p s) = s\<lparr>isPolishing := False, status := None\<rparr>"
  using assms
  by (auto simp add: handleAiPolish_def control_defs Let_def falsy_def state_after_def)

lemma handleSubmit_rejected_nullish:
  assumes "trim (name s) \<noteq> []" and "trim (email s) \<noteq> []" and "trim (message s) \<noteq> []"
    and "addDoc p (ascii ''messages'')
           \<lparr>doc_name = trim (name s), doc_email = trim (email s),
            doc_message = trim (message s), createdAt = toISOString p (now p)\<rparr> = Rejected Nullish
         \<or> (addDoc p (ascii ''messages'')
               \<lparr>doc_name = trim (name s), doc_email = trim (email s),
                doc_message = trim (message s), createdAt = toISOString p (now p)\<rparr> = Fulfilled ()
            \<and> send p (VITE_EMAILJS_SERVICE_ID e) (VITE_EMAILJS_TEMPLATE_ID e)
                 \<lparr>from_name = trim (name s), from_email = trim (email s),
                  param_message = trim (message s)\<rparr>
                 (VITE_EMAILJS_PUBLIC_KEY e) = Rejected Nullish)"
  shows "snd (handleSubmit e p s) = Throw (Thrown (Some (typeErrorMessage p)))"
    and "state_after s (handleSubmit e p s) = s\<lparr>isSubmitting := False, status := None\<rparr>"
  using assms
  by (auto simp add: handleSubmit_def control_defs Let_def state_after_def)

lemma handleAiPolish_pending:
  assumes "trim (message s) \<noteq> []"
    and "VITE_GOOGLE_GENERATIVE_AI_API_KEY e = Some key" and "key \<noteq> []"
    and "generateContent p key (ascii ''gemini-pro'')
           (ascii ''Rewrite the following text to be professional, polite, and concise: ''
              @ message s) = Pending"
  shows "\<not> settled (handleAiPolish e p s)"
    and "state_after s (handleAiPolish e p s) = s\<lparr>isPolishing := True, status := None\<rparr>"
  using assms
  by (simp_all add: handleAiPolish_def control_defs Let_def falsy_def settled_def
        state_after_def)

lemma handleSubmit_pending:
  assumes "trim (name s) \<noteq> []" and "trim (email s) \<noteq> []" and "trim (message s) \<noteq> []"
    and "addDoc p (ascii ''messages'')
           \<lparr>doc_name = trim (name s), doc_email = trim (email s),
            doc_message = trim (message s), createdAt = toISOString p (now p)\<rparr> = Pending"
  shows "\<not> settled (handleSubmit e p s)"
    and "state_after s (handleSubmit e p s) = s\<lparr>isSubmitting := True, status := None\<rparr>"
    and "filter is_email_send (fst (handleSubmit e p s)) = []"
  using assms
  by (simp_all add: handleSubmit_def control_defs Let_def settled_def state_after_def)

section \<open>The in-flight flags on the exit paths\<close>

text \<open>
  An early return comes before the \<open>try\<close> block and does not write the in-flight
  flag; once an invocation that entered the \<open>try\<close> block has settled, the
  \<open>finally\<close> block has cleared the flag. A button that is enabled shows that its flag
  is false.
\<close>

lemma polish_flag_after:
  "snd (handleAiPolish e p s) = Awaiting
   \<or> isPolishing (state_after s (handleAiPolish e p s)) =
       (if trim (message s) = [] \<or> falsy (VITE_GOOGLE_GENERATIVE_AI_API_KEY e)
        then isPolishing s else False)"
  by (simp add: handleAiPolish_def control_defs Let_def state_after_def
        split: outcome.split sum.split thrown.split)

lemma submit_flag_after:
  "snd (handleSubmit e p s) = Awaiting
   \<or> isSubmitting (state_after s (handleSubmit e p s)) =
       (if trim (name s) = [] \<or> trim (email s) = [] \<or> trim (message s) = []
        then isSubmitting s else False)"
  by (simp add: handleSubmit_def control_defs Let_def state_after_def
        split: outcome.split thrown.split)

lemma enabled_buttons:
  "\<not> polish_button_disabled s \<Longrightarrow> \<not> isPolishing s"
  "\<not> send_button_disabled s \<Longrightarrow> \<not> isSubmitting s"
  by (simp_all add: polish_button_disabled_def send_button_disabled_def)

section \<open>The Submit Action\<close>

text \<open>
  C1 (as the code has it). If name, email or message is empty after trimming,
  \<open>handleSubmit\<close> calls \<open>preventDefault\<close>, sets the status to the error
  ``Please fill in all fields.'' (the literal of the source ends with a full stop) and
  returns: it makes no outbound call, and the state afterwards differs from the state
  before in the status only, so name, email and message are unchanged.
\<close>

theorem submit_blank_field:
  assumes "trim (name s) = [] \<or> trim (email s) = [] \<or> trim (message s) = []"
  shows "handleSubmit e p s =
           ([PreventDefault,
             SetStatus (Some \<lparr>type = error, text = ascii ''Please fill in all fields.''\<rparr>)],
            Normal)
       \<and> filter is_outbound (fst (handleSubmit e p s)) = []
       \<and> state_after s (handleSubmit e p s) =
           s\<lparr>status := Some \<lparr>type = error, text = ascii ''Please fill in all fields.''\<rparr>\<rparr>"
  using assms by (simp add: handleSubmit_def control_defs state_after_def is_outbound_def)

theorem submit_blank_field_witness:
  "trim (message busy_blank_form) = []
   \<and> handleSubmit example_env platform_ok busy_blank_form =
       ([PreventDefault,
         SetStatus (Some \<lparr>type = error, text = ascii ''Please fill in all fields.''\<rparr>)],
        Normal)
   \<and> name (state_after busy_blank_form (handleSubmit example_env platform_ok busy_blank_form)) = []
   \<and> message (state_after busy_blank_form (handleSubmit example_env platform_ok busy_blank_form))
       = ascii ''  ''"
  using submit_blank_field [where s = busy_blank_form and e = example_env and p = platform_ok]
  by (simp add: fixture_defs string_defs state_after_def completed_def)

text \<open>
  C1 as stated fails on the text of the status: on the empty form the status is not the
  error with the text ``Please fill in all fields'' (without the full stop).
\<close>

theorem submit_blank_text_counterexample:
  "trim (name initial_state) = []
   \<and> status (state_after initial_state (handleSubmit example_env platform_ok initial_state))
       = Some \<lparr>type = error, text = ascii ''Please fill in all fields.''\<rparr>
   \<and> status (state_after initial_state (handleSubmit example_env platform_ok initial_state))
       \<noteq> Some \<lparr>type = error, text = ascii ''Please fill in all fields''\<rparr>"
  by (simp add: handleSubmit_def control_defs state_after_def fixture_defs string_defs)

text \<open>
  C2. If name, email and message are all non-empty after trimming, and the store write
  and the email send are both fulfilled, then \<open>handleSubmit\<close> does exactly this, in
  this order: \<open>preventDefault\<close>; \<open>isSubmitting\<close> set; status cleared; one \<open>addDoc\<close>
  into the collection ``messages'' with the trimmed name, email and message and with
  \<open>createdAt = new Date().toISOString()\<close>; one \<open>emailjs.send\<close> with the trimmed
  values as \<open>from_name\<close>, \<open>from_email\<close> and \<open>message\<close>; a success status; name,
  email and message reset to the empty string; \<open>isSubmitting\<close> cleared. It completes,
  and the state afterwards has empty fields, the success status and
  \<open>isSubmitting = False\<close>.
\<close>

theorem submit_success:
  fixes e :: env and p :: platform and s :: ContactFormState
  defines "doc \<equiv> \<lparr>doc_name = trim (name s), doc_email = trim (email s),
                    doc_message = trim (message s), createdAt = toISOString p (now p)\<rparr>"
    and "params \<equiv> \<lparr>from_name = trim (name s), from_email = trim (email s),
                     param_message = trim (message s)\<rparr>"
  assumes "trim (name s) \<noteq> []" and "trim (email s) \<noteq> []" and "trim (message s) \<noteq> []"
    and "addDoc p (ascii ''messages'') doc = Fulfilled ()"
    and "send p (VITE_EMAILJS_SERVICE_ID e) (VITE_EMAILJS_TEMPLATE_ID e) params
           (VITE_EMAILJS_PUBLIC_KEY e) = Fulfilled ()"
  shows "handleSubmit e p s =
           ([PreventDefault, SetIsSubmitting True, SetStatus None,
             AddDoc (ascii ''messages'') doc,
             EmailSend (VITE_EMAILJS_SERVICE_ID e) (VITE_EMAILJS_TEMPLATE_ID e) params
               (VITE_EMAILJS_PUBLIC_KEY e),
             SetStatus (Some \<lparr>type = success, text = ascii ''Message sent successfully!''\<rparr>),
             SetName [], SetEmail [], SetMessage [], SetIsSubmitting False],
            Normal)
       \<and> state_after s (handleSubmit e p s) =
           s\<lparr>name := [], email := [], message := [], isSubmitting := False,
             status := Some \<lparr>type = success, text = ascii ''Message sent successfully!''\<rparr>\<rparr>"
  using assms by (simp add: handleSubmit_def control_defs state_after_def Let_def)

theorem submit_success_witness:
  "trim (name filled_form) \<noteq> [] \<and> trim (email filled_form) \<noteq> []
   \<and> trim (message filled_form) \<noteq> []
   \<and> handleSubmit example_env platform_ok filled_form =
       ([PreventDefault, SetIsSubmitting True, SetStatus None,
         AddDoc (ascii ''messages'')
           \<lparr>doc_name = ascii ''Ann'', doc_email = ascii ''a@b.c'',
            doc_message = ascii ''hi there'', createdAt = ascii ''1970-01-01T00:00:00.000Z''\<rparr>,
         EmailSend (Some (ascii ''svc'')) (Some (ascii ''tpl''))
           \<lparr>from_name = ascii ''Ann'', from_email = ascii ''a@b.c'',
            param_message = ascii ''hi there''\<rparr>
           (Some (ascii ''pub'')),
         SetStatus (Some \<lparr>type = success, text = ascii ''Message sent successfully!''\<rparr>),
         SetName [], SetEmail [], SetMessage [], SetIsSubmitting False],
        Normal)
   \<and> state_after filled_form (handleSubmit example_env platform_ok filled_form) =
       initial_state
         \<lparr>status := Some \<lparr>type = success, text = ascii ''Message sent successfully!''\<rparr>\<rparr>"
  using submit_success [where s = filled_form and p = platform_ok and e = example_env]
  by (simp add: fixture_defs string_defs state_after_def completed_def)

text \<open>
  C3. In an invocation that passes validation, the first outbound call is the store
  write, so no email send comes before it; and if the store write is rejected, the
  invocation makes no email send at all.
\<close>

theorem submit_store_before_email:
  fixes e :: env and p :: platform and s :: ContactFormState
  defines "doc \<equiv> \<lparr>doc_name = trim (name s), doc_email = trim (email s),
                    doc_message = trim (message s), createdAt = toISOString p (now p)\<rparr>"
  assumes "trim (name s) \<noteq> []" and "trim (email s) \<noteq> []" and "trim (message s) \<noteq> []"
  shows "find is_outbound (fst (handleSubmit e p s)) = Some (AddDoc (ascii ''messages'') doc)
       \<and> filter is_email_send
           (takeWhile (\<lambda>x. \<not> is_store_write x) (fst (handleSubmit e p s))) = []
       \<and> (\<forall>err. addDoc p (ascii ''messages'') doc = Rejected err \<longrightarrow>
            filter is_email_send (fst (handleSubmit e p s)) = [])"
  using assms
  by (simp add: handleSubmit_def control_defs Let_def is_outbound_def
        split: outcome.split thrown.split)

theorem submit_store_before_email_witness:
  "trim (name filled_form) \<noteq> [] \<and> trim (email filled_form) \<noteq> []
   \<and> trim (message filled_form) \<noteq> []
   \<and> addDoc platform_store_down (ascii ''messages'')
        \<lparr>doc_name = ascii ''Ann'', doc_email = ascii ''a@b.c'',
         doc_message = ascii ''hi there'', createdAt = ascii ''1970-01-01T00:00:00.000Z''\<rparr>
       = Rejected (Thrown (Some (ascii ''permission-denied'')))
   \<and> find is_outbound (fst (handleSubmit example_env platform_store_down filled_form)) =
       Some (AddDoc (ascii ''messages'')
          \<lparr>doc_name = ascii ''Ann'', doc_email = ascii ''a@b.c'',
           doc_message = ascii ''hi there'', createdAt = ascii ''1970-01-01T00:00:00.000Z''\<rparr>)
   \<and> filter is_email_send (fst (handleSubmit example_env platform_store_down filled_form)) = []"
  using submit_store_before_email
          [where s = filled_form and p = platform_store_down and e = example_env]
  by (simp add: fixture_defs string_defs state_after_def completed_def)

text \<open>
  C4 (as the code has it). In an invocation that passes validation, if the store write
  is rejected, or the store write is fulfilled and the email send is rejected, with a
  thrown value other than \<open>undefined\<close> and \<open>null\<close> whose \<open>message\<close> is \<open>m\<close>,
  then the invocation completes; the state afterwards is the state before with
  \<open>isSubmitting = False\<close> and an error status whose text is \<open>m\<close>, or ``Failed to
  send message.'' (with the full stop) when \<open>m\<close> is missing or empty, so name, email
  and message are not reset; and the outbound calls of the invocation are the store
  write alone, or the store write followed by the email send: nothing undoes a store
  write that was fulfilled.
\<close>

theorem submit_failure:
  fixes e :: env and p :: platform and s :: ContactFormState
  defines "doc \<equiv> \<lparr>doc_name = trim (name s), doc_email = trim (email s),
                    doc_message = trim (message s), createdAt = toISOString p (now p)\<rparr>"
    and "params \<equiv> \<lparr>from_name = trim (name s), from_email = trim (email s),
                     param_message = trim (message s)\<rparr>"
  assumes "trim (name s) \<noteq> []" and "trim (email s) \<noteq> []" and "trim (message s) \<noteq> []"
    and "addDoc p (ascii ''messages'') doc = Rejected (Thrown m)
         \<or> (addDoc p (ascii ''messages'') doc = Fulfilled ()
            \<and> send p (VITE_EMAILJS_SERVICE_ID e) (VITE_EMAILJS_TEMPLATE_ID e) params
                 (VITE_EMAILJS_PUBLIC_KEY e) = Rejected (Thrown m))"
  shows "completed (handleSubmit e p s)
       \<and> state_after s (handleSubmit e p s) =
           s\<lparr>isSubmitting := False,
             status := Some \<lparr>type = error,
                             text = (case m of
                                       None \<Rightarrow> ascii ''Failed to send message.''
                                     | Some t \<Rightarrow> if t = [] then ascii ''Failed to send message.''
                                                 else t)\<rparr>\<rparr>
       \<and> filter is_outbound (fst (handleSubmit e p s)) =
           (if addDoc p (ascii ''messages'') doc = Fulfilled ()
            then [AddDoc (ascii ''messages'') doc,
                  EmailSend (VITE_EMAILJS_SERVICE_ID e) (VITE_EMAILJS_TEMPLATE_ID e) params
                    (VITE_EMAILJS_PUBLIC_KEY e)]
            else [AddDoc (ascii ''messages'') doc])"
  using assms
  by (auto simp add: handleSubmit_def control_defs Let_def is_outbound_def completed_def
        state_after_def logical_or_def split: option.splits)

theorem submit_failure_witness:
  "trim (name filled_form) \<noteq> [] \<and> trim (email filled_form) \<noteq> []
   \<and> trim (message filled_form) \<noteq> []
   \<and> addDoc platform_store_down (ascii ''messages'')
        \<lparr>doc_name = ascii ''Ann'', doc_email = ascii ''a@b.c'',
         doc_message = ascii ''hi there'', createdAt = ascii ''1970-01-01T00:00:00.000Z''\<rparr>
       = Rejected (Thrown (Some (ascii ''permission-denied'')))
   \<and> completed (handleSubmit example_env platform_store_down filled_form)
   \<and> state_after filled_form (handleSubmit example_env platform_store_down filled_form) =
       filled_form\<lparr>status := Some \<lparr>type = error, text = ascii ''permission-denied''\<rparr>\<rparr>"
  using submit_failure
          [where s = filled_form and p = platform_store_down and e = example_env
             and m = "Some (ascii ''permission-denied'')"]
  by (simp add: fixture_defs string_defs state_after_def completed_def)

text \<open>
  C4 as stated fails in two places. On the fallback text: when the email send is
  rejected with a value that has no \<open>message\<close>, the status text is not ``Failed to
  send message'' (without the full stop). On the thrown value: when the email send is
  rejected with \<open>undefined\<close>, no error status is set at all: the status stays the null
  it was cleared to, and the handler throws the \<open>TypeError\<close> of the read of
  \<open>err.message\<close>.
\<close>

theorem submit_failure_counterexample:
  "send platform_mail_down (Some (ascii ''svc'')) (Some (ascii ''tpl''))
     \<lparr>from_name = ascii ''Ann'', from_email = ascii ''a@b.c'', param_message = ascii ''hi there''\<rparr>
     (Some (ascii ''pub'')) = Rejected (Thrown None)
   \<and> status (state_after filled_form (handleSubmit example_env platform_mail_down filled_form))
       = Some \<lparr>type = error, text = ascii ''Failed to send message.''\<rparr>
   \<and> status (state_after filled_form (handleSubmit example_env platform_mail_down filled_form))
       \<noteq> Some \<lparr>type = error, text = ascii ''Failed to send message''\<rparr>
   \<and> send platform_mail_undefined (Some (ascii ''svc'')) (Some (ascii ''tpl''))
     \<lparr>from_name = ascii ''Ann'', from_email = ascii ''a@b.c'', param_message = ascii ''hi there''\<rparr>
     (Some (ascii ''pub'')) = Rejected Nullish
   \<and> status (state_after filled_form
               (handleSubmit example_env platform_mail_undefined filled_form)) = None
   \<and> snd (handleSubmit example_env platform_mail_undefined filled_form)
       = Throw (Thrown (Some (ascii ''err is undefined'')))"
  by (simp add: handleSubmit_def control_defs state_after_def logical_or_def Let_def
        fixture_defs string_defs)

section \<open>The AI Polish Action\<close>

text \<open>
  C6. If the message is empty or consists of white space only, \<open>handleAiPolish\<close>
  returns at once: it has no effect at all, so no remote call is made, and the whole
  form state (name, email, message, both flags, status) is as before.
\<close>

theorem polish_blank_noop:
  assumes "list_all isTrimmed (message s)"
  shows "handleAiPolish e p s = ([], Normal) \<and> state_after s (handleAiPolish e p s) = s"
  using assms by (simp add: handleAiPolish_def state_after_def trim_empty_iff)

theorem polish_blank_noop_witness:
  "list_all isTrimmed (message busy_blank_form)
   \<and> handleAiPolish example_env platform_ok busy_blank_form = ([], Normal)
   \<and> state_after busy_blank_form (handleAiPolish example_env platform_ok busy_blank_form)
       = busy_blank_form"
  using polish_blank_noop [where s = busy_blank_form and e = example_env and p = platform_ok]
  by (simp add: fixture_defs string_defs state_after_def)

text \<open>
  C7 (as the code has it). If the message is not blank and the API key is missing from
  the environment (or is the empty string), \<open>handleAiPolish\<close> has one effect only: it
  sets the status to the error ``AI API key not configured.'' (the literal of the source
  ends with a full stop). No remote call is made, and message, name, email and the two
  flags are as before.
\<close>

theorem polish_missing_key:
  assumes "trim (message s) \<noteq> []" and "falsy (VITE_GOOGLE_GENERATIVE_AI_API_KEY e)"
  shows "handleAiPolish e p s =
           ([SetStatus (Some \<lparr>type = error, text = ascii ''AI API key not configured.''\<rparr>)],
            Normal)
       \<and> filter is_outbound (fst (handleAiPolish e p s)) = []
       \<and> state_after s (handleAiPolish e p s) =
           s\<lparr>status := Some \<lparr>type = error, text = ascii ''AI API key not configured.''\<rparr>\<rparr>"
  using assms
  by (simp add: handleAiPolish_def control_defs state_after_def is_outbound_def)

theorem polish_missing_key_witness:
  "trim (message filled_form) \<noteq> []
   \<and> VITE_GOOGLE_GENERATIVE_AI_API_KEY env_without_key = None
   \<and> handleAiPolish env_without_key platform_ok filled_form =
       ([SetStatus (Some \<lparr>type = error, text = ascii ''AI API key not configured.''\<rparr>)],
        Normal)
   \<and> state_after filled_form (handleAiPolish env_without_key platform_ok filled_form) =
       filled_form
         \<lparr>status := Some \<lparr>type = error, text = ascii ''AI API key not configured.''\<rparr>\<rparr>"
  using polish_missing_key [where s = filled_form and e = env_without_key and p = platform_ok]
  by (simp add: fixture_defs string_defs falsy_def state_after_def)

text \<open>
  C7 as stated fails on the text of the status: without an API key the status is not
  the error with the text ``AI API key not configured'' (without the full stop).
\<close>

theorem polish_missing_key_text_counterexample:
  "VITE_GOOGLE_GENERATIVE_AI_API_KEY env_without_key = None
   \<and> status (state_after filled_form (handleAiPolish env_without_key platform_ok filled_form))
       = Some \<lparr>type = error, text = ascii ''AI API key not configured.''\<rparr>
   \<and> status (state_after filled_form (handleAiPolish env_without_key platform_ok filled_form))
       \<noteq> Some \<lparr>type = error, text = ascii ''AI API key not configured''\<rparr>"
  by (simp add: handleAiPolish_def control_defs state_after_def falsy_def fixture_defs
        string_defs)

text \<open>
  C8. If the message is not blank and the environment holds a non-empty API key, then
  \<open>handleAiPolish\<close> first sets \<open>isPolishing\<close>, then clears the status, then calls
  \<open>generateContent\<close> on the model ``gemini-pro'' with the prompt ``Rewrite the
  following text to be professional, polite, and concise: '' followed by the current
  message (as it is, not trimmed); this is its only outbound call. If the call is
  fulfilled and the response text \<open>t\<close> is not empty, the invocation goes on to set the
  message to \<open>t\<close> trimmed and the status to a success, clears \<open>isPolishing\<close> and
  completes.
\<close>

theorem polish_request_and_success:
  fixes e :: env and p :: platform and s :: ContactFormState
  defines "prompt \<equiv>
             ascii ''Rewrite the following text to be professional, polite, and concise: ''
               @ message s"
  assumes "trim (message s) \<noteq> []"
    and "VITE_GOOGLE_GENERATIVE_AI_API_KEY e = Some key" and "key \<noteq> []"
  shows "take 3 (fst (handleAiPolish e p s)) =
           [SetIsPolishing True, SetStatus None,
            GenerateContent key (ascii ''gemini-pro'') prompt]
       \<and> filter is_outbound (fst (handleAiPolish e p s)) =
           [GenerateContent key (ascii ''gemini-pro'') prompt]
       \<and> (\<forall>t. generateContent p key (ascii ''gemini-pro'') prompt = Fulfilled (Response (Inr t))
                \<and> t \<noteq> [] \<longrightarrow>
              handleAiPolish e p s =
                ([SetIsPolishing True, SetStatus None,
                  GenerateContent key (ascii ''gemini-pro'') prompt,
                  SetMessage (trim t),
                  SetStatus (Some \<lparr>type = success, text = ascii ''Message polished!''\<rparr>),
                  SetIsPolishing False],
                 Normal)
              \<and> state_after s (handleAiPolish e p s) =
                  s\<lparr>message := trim t, isPolishing := False,
                    status := Some \<lparr>type = success, text = ascii ''Message polished!''\<rparr>\<rparr>)"
  using assms
  by (simp add: handleAiPolish_def control_defs Let_def falsy_def is_outbound_def
        state_after_def split: outcome.split sum.split)

theorem polish_request_and_success_witness:
  "trim (message filled_form) \<noteq> []
   \<and> VITE_GOOGLE_GENERATIVE_AI_API_KEY example_env = Some (ascii ''key'')
   \<and> ascii ''key'' \<noteq> []
   \<and> generateContent platform_ok (ascii ''key'') (ascii ''gemini-pro'')
        (ascii ''Rewrite the following text to be professional, polite, and concise: hi there '')
       = Fulfilled (Response (Inr (ascii '' Dear all. '')))
   \<and> handleAiPolish example_env platform_ok filled_form =
       ([SetIsPolishing True, SetStatus None,
         GenerateContent (ascii ''key'') (ascii ''gemini-pro'')
           (ascii ''Rewrite the following text to be professional, polite, and concise: hi there ''),
         SetMessage (ascii ''Dear all.''),
         SetStatus (Some \<lparr>type = success, text = ascii ''Message polished!''\<rparr>),
         SetIsPolishing False],
        Normal)
   \<and> state_after filled_form (handleAiPolish example_env platform_ok filled_form) =
       filled_form
         \<lparr>message := ascii ''Dear all.'',
          status := Some \<lparr>type = success, text = ascii ''Message polished!''\<rparr>\<rparr>"
  using polish_request_and_success
          [where s = filled_form and e = example_env and p = platform_ok
             and key = "ascii ''key''"]
  by (simp add: fixture_defs string_defs state_after_def)

text \<open>
  C9 (as the code has it). If the message is not blank, an API key is configured, and
  the generative-text call is rejected with a thrown value other than \<open>undefined\<close>
  and \<open>null\<close> whose \<open>message\<close> is \<open>m\<close> (or \<open>text()\<close> on its response throws
  such a value), the invocation catches it and completes; the state afterwards is the
  state before with \<open>isPolishing = False\<close> and an error status whose text is \<open>m\<close>,
  or ``AI polish failed.'' (with the full stop) when \<open>m\<close> is missing or empty. The
  message field is as before.
\<close>

theorem polish_failure:
  fixes e :: env and p :: platform and s :: ContactFormState
  defines "prompt \<equiv>
             ascii ''Rewrite the following text to be professional, polite, and concise: ''
               @ message s"
  assumes "trim (message s) \<noteq> []"
    and "VITE_GOOGLE_GENERATIVE_AI_API_KEY e = Some key" and "key \<noteq> []"
    and "generateContent p key (ascii ''gemini-pro'') prompt = Rejected (Thrown m)
         \<or> generateContent p key (ascii ''gemini-pro'') prompt
             = Fulfilled (Response (Inl (Thrown m)))"
  shows "completed (handleAiPolish e p s)
       \<and> fst (handleAiPolish e p s) =
           [SetIsPolishing True, SetStatus None,
            GenerateContent key (ascii ''gemini-pro'') prompt,
            SetStatus (Some \<lparr>type = error,
                              text = (case m of
                                        None \<Rightarrow> ascii ''AI polish failed.''
                                      | Some t \<Rightarrow> if t = [] then ascii ''AI polish failed.''
                                                  else t)\<rparr>),
            SetIsPolishing False]
       \<and> state_after s (handleAiPolish e p s) =
           s\<lparr>isPolishing := False,
             status := Some \<lparr>type = error,
                             text = (case m of
                                       None \<Rightarrow> ascii ''AI polish failed.''
                                     | Some t \<Rightarrow> if t = [] then ascii ''AI polish failed.''
                                                 else t)\<rparr>\<rparr>"
  using assms
  by (auto simp add: handleAiPolish_def control_defs Let_def falsy_def completed_def
        state_after_def logical_or_def split: option.splits)

theorem polish_failure_witness:
  "trim (message filled_form) \<noteq> []
   \<and> VITE_GOOGLE_GENERATIVE_AI_API_KEY example_env = Some (ascii ''key'')
   \<and> ascii ''key'' \<noteq> []
   \<and> generateContent platform_ai_down (ascii ''key'') (ascii ''gemini-pro'')
        (ascii ''Rewrite the following text to be professional, polite, and concise: hi there '')
       = Rejected (Thrown None)
   \<and> completed (handleAiPolish example_env platform_ai_down filled_form)
   \<and> state_after filled_form (handleAiPolish example_env platform_ai_down filled_form) =
       filled_form\<lparr>status := Some \<lparr>type = error, text = ascii ''AI polish failed.''\<rparr>\<rparr>"
  using polish_failure
          [where s = filled_form and e = example_env and p = platform_ai_down
             and key = "ascii ''key''" and m = None]
  by (simp add: fixture_defs string_defs state_after_def completed_def)

text \<open>
  C9 as stated fails in two places. On the fallback text: when the call is rejected
  with a value that has no \<open>message\<close>, the status text is not ``AI polish failed''
  (without the full stop). On the thrown value: when the call is rejected with
  \<open>undefined\<close>, the error is not caught at the action boundary: no error status is
  set, the status stays the null it was cleared to, and the handler throws the
  \<open>TypeError\<close> of the read of \<open>err.message\<close>.
\<close>

theorem polish_failure_counterexample:
  "generateContent platform_ai_down (ascii ''key'') (ascii ''gemini-pro'')
     (ascii ''Rewrite the following text to be professional, polite, and concise: hi there '')
     = Rejected (Thrown None)
   \<and> status (state_after filled_form (handleAiPolish example_env platform_ai_down filled_form))
       = Some \<lparr>type = error, text = ascii ''AI polish failed.''\<rparr>
   \<and> status (state_after filled_form (handleAiPolish example_env platform_ai_down filled_form))
       \<noteq> Some \<lparr>type = error, text = ascii ''AI polish failed''\<rparr>
   \<and> generateContent platform_ai_undefined (ascii ''key'') (ascii ''gemini-pro'')
     (ascii ''Rewrite the following text to be professional, polite, and concise: hi there '')
     = Rejected Nullish
   \<and> status (state_after filled_form
               (handleAiPolish example_env platform_ai_undefined filled_form)) = None
   \<and> snd (handleAiPolish example_env platform_ai_undefined filled_form)
       = Throw (Thrown (Some (ascii ''err is undefined'')))"
  by (simp add: handleAiPolish_def control_defs state_after_def falsy_def logical_or_def
        Let_def fixture_defs string_defs)

text \<open>
  C10. If the message is not blank, an API key is configured, and the generative-text
  call is fulfilled with the empty response text, then the effects of the invocation are
  exactly: \<open>isPolishing\<close> set, status cleared, the remote call, \<open>isPolishing\<close>
  cleared. So the message is as before, no success or error status is set, the status
  afterwards is the null it was cleared to, and \<open>isPolishing\<close> is false.
\<close>

theorem polish_empty_response:
  fixes e :: env and p :: platform and s :: ContactFormState
  defines "prompt \<equiv>
             ascii ''Rewrite the following text to be professional, polite, and concise: ''
               @ message s"
  assumes "trim (message s) \<noteq> []"
    and "VITE_GOOGLE_GENERATIVE_AI_API_KEY e = Some key" and "key \<noteq> []"
    and "generateContent p key (ascii ''gemini-pro'') prompt = Fulfilled (Response (Inr []))"
  shows "handleAiPolish e p s =
           ([SetIsPolishing True, SetStatus None,
             GenerateContent key (ascii ''gemini-pro'') prompt,
             SetIsPolishing False],
            Normal)
       \<and> state_after s (handleAiPolish e p s) = s\<lparr>isPolishing := False, status := None\<rparr>"
  using assms
  by (simp add: handleAiPolish_def control_defs Let_def falsy_def state_after_def)

theorem polish_empty_response_witness:
  "trim (message filled_form) \<noteq> []
   \<and> VITE_GOOGLE_GENERATIVE_AI_API_KEY example_env = Some (ascii ''key'')
   \<and> ascii ''key'' \<noteq> []
   \<and> generateContent platform_ai_empty (ascii ''key'') (ascii ''gemini-pro'')
        (ascii ''Rewrite the following text to be professional, polite, and concise: hi there '')
       = Fulfilled (Response (Inr []))
   \<and> state_after
        (filled_form\<lparr>status := Some \<lparr>type = error, text = ascii ''AI polish failed.''\<rparr>\<rparr>)
        (handleAiPolish example_env platform_ai_empty
           (filled_form\<lparr>status := Some \<lparr>type = error, text = ascii ''AI polish failed.''\<rparr>\<rparr>))
       = filled_form"
  using polish_empty_response
          [where s = "filled_form\<lparr>status := Some \<lparr>type = error,
                                                   text = ascii ''AI polish failed.''\<rparr>\<rparr>"
             and e = example_env and p = platform_ai_empty and key = "ascii ''key''"]
  by (simp add: fixture_defs string_defs state_after_def)

section \<open>The in-flight flags\<close>

text \<open>
  C5. The component invokes an action only through its button, which is disabled while
  the action's flag is set; so the flag is false when the action is invoked. Then,
  once an invocation of \<open>handleAiPolish\<close> has settled, \<open>isPolishing\<close> is false,
  and once an invocation of \<open>handleSubmit\<close> has settled, \<open>isSubmitting\<close> is false,
  on every exit path: an early return, success, or a remote error (also one whose catch
  block throws).
\<close>

theorem flags_after_invocation:
  "(\<not> isPolishing s \<and> settled (handleAiPolish e p s) \<longrightarrow>
      isPolishing (state_after s (handleAiPolish e p s)) = False)
   \<and> (\<not> isSubmitting s \<and> settled (handleSubmit e p s) \<longrightarrow>
      isSubmitting (state_after s (handleSubmit e p s)) = False)"
proof (intro conjI impI)
  assume pre: "\<not> isPolishing s \<and> settled (handleAiPolish e p s)"
  then have "snd (handleAiPolish e p s) \<noteq> Awaiting"
    by (simp add: settled_def)
  with polish_flag_after [of e p s]
  have "isPolishing (state_after s (handleAiPolish e p s)) =
          (if trim (message s) = [] \<or> falsy (VITE_GOOGLE_GENERATIVE_AI_API_KEY e)
           then isPolishing s else False)"
    by blast
  with pre show "isPolishing (state_after s (handleAiPolish e p s)) = False"
    by simp
next
  assume pre: "\<not> isSubmitting s \<and> settled (handleSubmit e p s)"
  then have "snd (handleSubmit e p s) \<noteq> Awaiting"
    by (simp add: settled_def)
  with submit_flag_after [of e p s]
  have "isSubmitting (state_after s (handleSubmit e p s)) =
          (if trim (name s) = [] \<or> trim (email s) = [] \<or> trim (message s) = []
           then isSubmitting s else False)"
    by blast
  with pre show "isSubmitting (state_after s (handleSubmit e p s)) = False"
    by simp
qed

theorem flags_after_invocation_witness:
  "\<not> polish_button_disabled filled_form
   \<and> \<not> isPolishing filled_form
   \<and> settled (handleAiPolish example_env platform_ai_down filled_form)
   \<and> isPolishing (state_after filled_form
        (handleAiPolish example_env platform_ai_down filled_form)) = False
   \<and> \<not> send_button_disabled filled_form
   \<and> \<not> isSubmitting filled_form
   \<and> settled (handleSubmit example_env platform_ai_down filled_form)
   \<and> isSubmitting (state_after filled_form
        (handleSubmit example_env platform_ai_down filled_form)) = False"
  using flags_after_invocation
          [where s = filled_form and e = example_env and p = platform_ai_down]
  by (simp add: handleAiPolish_def handleSubmit_def control_defs Let_def settled_def
        falsy_def fixture_defs string_defs polish_button_disabled_def
        send_button_disabled_def)

end
